theory Spec2Isabelle
  imports Complex_Main "HOL-Library.Sublist"
begin

section \<open>JavaScript numbers and JSON values\<close>

text \<open>
  A JavaScript number is an IEEE 754 double: a finite value, which is a rational, or one
  of the three special values. The two zeros are one value \<open>Fin 0\<close> (the code tests
  zero with \<open>===\<close>, which does not tell them apart, before every division).
\<close>

datatype jsnum = Fin rat | NaN | PosInf | NegInf

text \<open>
  Rounding a rational to the nearest double, ties to the even significand. A double has
  53 significant bits and a binary exponent from -1022 (below it the spacing stays that
  of the subnormal numbers, \<open>2 ^ -1074\<close>) to 1023; a value that rounds to \<open>2 ^ 1024\<close>
  or beyond is an infinity. \<open>bitLength n\<close> is the number of binary digits of \<open>n\<close>,
  and \<open>binaryExponent a\<close>, for \<open>a > 0\<close>, is the \<open>e\<close> with
  \<open>2 ^ e \<le> a < 2 ^ (e + 1)\<close>.
\<close>

function bitLength :: "int \<Rightarrow> int" where
  "bitLength n = (if n \<le> 0 then 0 else 1 + bitLength (n div 2))"
  by pat_completeness auto
termination
  by (relation "measure nat") auto

declare bitLength.simps [simp del]

definition pow2 :: "int \<Rightarrow> rat" where
  "pow2 k = (if 0 \<le> k then 2 ^ nat k else 1 / 2 ^ nat (- k))"

definition binaryExponent :: "rat \<Rightarrow> int" where
  "binaryExponent a =
     (if 1 \<le> a then bitLength \<lfloor>a\<rfloor> - 1
      else - bitLength (\<lceil>1 / a\<rceil> - 1))"

definition roundHalfEven :: "rat \<Rightarrow> int" where
  "roundHalfEven y =
     (let f = \<lfloor>y\<rfloor>; r = y - of_int f in
      if r < 1 / 2 then f
      else if 1 / 2 < r then f + 1
      else if even f then f else f + 1)"

definition toDouble :: "rat \<Rightarrow> jsnum" where
  "toDouble x =
     (if x = 0 then Fin 0
      else
        (let a = \<bar>x\<bar>;
             e = max (binaryExponent a) (- 1022);
             q = pow2 (e - 52);
             v = of_int (roundHalfEven (a / q)) * q
         in if pow2 1024 \<le> v then (if 0 < x then PosInf else NegInf)
            else Fin (if 0 < x then v else - v)))"

text \<open>\<open>Number.isFinite\<close> on a number.\<close>

fun isFinite :: "jsnum \<Rightarrow> bool" where
  "isFinite (Fin x) = True"
| "isFinite n = False"

text \<open>The relational operators \<open><\<close> and \<open>===\<close> on numbers; \<open>a > b\<close> is \<open>js_lt b a\<close>.\<close>

fun js_lt :: "jsnum \<Rightarrow> jsnum \<Rightarrow> bool" where
  "js_lt (Fin x) (Fin y) = (x < y)"
| "js_lt NaN b = False"
| "js_lt a NaN = False"
| "js_lt NegInf b = (b \<noteq> NegInf)"
| "js_lt a PosInf = (a \<noteq> PosInf)"
| "js_lt a b = False"

definition js_gt :: "jsnum \<Rightarrow> jsnum \<Rightarrow> bool" where
  "js_gt a b = js_lt b a"

definition js_eq :: "jsnum \<Rightarrow> jsnum \<Rightarrow> bool" where
  "js_eq a b = (a \<noteq> NaN \<and> a = b)"

text \<open>
  Arithmetic: \<open>a / b\<close>, \<open>a * b\<close>, \<open>a + b\<close>, \<open>- a\<close> and \<open>a - b\<close>. The
  exact result of an operation on finite numbers is rounded to a double.
\<close>

fun js_div :: "jsnum \<Rightarrow> jsnum \<Rightarrow> jsnum" where
  "js_div (Fin x) (Fin y) =
     (if y = 0 then (if x = 0 then NaN else if 0 < x then PosInf else NegInf)
      else toDouble (x / y))"
| "js_div NaN b = NaN"
| "js_div a NaN = NaN"
| "js_div (Fin x) b = Fin 0"
| "js_div PosInf (Fin y) = (if 0 \<le> y then PosInf else NegInf)"
| "js_div NegInf (Fin y) = (if 0 \<le> y then NegInf else PosInf)"
| "js_div a b = NaN"

fun js_mul :: "jsnum \<Rightarrow> jsnum \<Rightarrow> jsnum" where
  "js_mul (Fin x) (Fin y) = toDouble (x * y)"
| "js_mul NaN b = NaN"
| "js_mul a NaN = NaN"
| "js_mul (Fin x) PosInf = (if x = 0 then NaN else if 0 < x then PosInf else NegInf)"
| "js_mul (Fin x) NegInf = (if x = 0 then NaN else if 0 < x then NegInf else PosInf)"
| "js_mul PosInf (Fin y) = (if y = 0 then NaN else if 0 < y then PosInf else NegInf)"
| "js_mul NegInf (Fin y) = (if y = 0 then NaN else if 0 < y then NegInf else PosInf)"
| "js_mul a b = (if a = b then PosInf else NegInf)"

fun js_add :: "jsnum \<Rightarrow> jsnum \<Rightarrow> jsnum" where
  "js_add (Fin x) (Fin y) = toDouble (x + y)"
| "js_add NaN b = NaN"
| "js_add a NaN = NaN"
| "js_add (Fin x) b = b"
| "js_add a (Fin y) = a"
| "js_add a b = (if a = b then a else NaN)"

fun js_neg :: "jsnum \<Rightarrow> jsnum" where
  "js_neg (Fin x) = Fin (- x)"
| "js_neg NaN = NaN"
| "js_neg PosInf = NegInf"
| "js_neg NegInf = PosInf"

definition js_sub :: "jsnum \<Rightarrow> jsnum \<Rightarrow> jsnum" where
  "js_sub a b = js_add a (js_neg b)"

text \<open>
  \<open>Math.round\<close> gives the nearest integer, halves towards plus infinity, with no
  rounding error (the integer nearest to a double is a double);
  \<open>Math.max\<close> and \<open>Math.min\<close> of two numbers return \<open>NaN\<close> when either is.
\<close>

fun Math_round :: "jsnum \<Rightarrow> jsnum" where
  "Math_round (Fin x) = Fin (of_int \<lfloor>x + 1 / 2\<rfloor>)"
| "Math_round n = n"

definition Math_max :: "jsnum \<Rightarrow> jsnum \<Rightarrow> jsnum" where
  "Math_max a b = (if a = NaN \<or> b = NaN then NaN else if js_lt a b then b else a)"

definition Math_min :: "jsnum \<Rightarrow> jsnum \<Rightarrow> jsnum" where
  "Math_min a b = (if a = NaN \<or> b = NaN then NaN else if js_lt b a then b else a)"

text \<open>
  A value as \<open>response.json()\<close> delivers it, with \<open>undefined\<close> for what a property
  read finds missing. An object is the list of its own entries, in the order of
  \<open>Object.entries\<close>; a property read takes the first entry of that name.
\<close>

datatype jsval =
    JUndefined
  | JNull
  | JBool bool
  | JNum jsnum
  | JStr string
  | JArr "jsval list"
  | JObj "(string \<times> jsval) list"

text \<open>
  \<open>v[k]\<close> for a key that no prototype defines: the own property of an object, and
  \<open>undefined\<close> on an array, a string, a number or a boolean. The code reads a property
  only after it has found the value truthy or a record, so never of \<open>null\<close> or
  \<open>undefined\<close>.
\<close>

fun get_prop :: "jsval \<Rightarrow> string \<Rightarrow> jsval" where
  "get_prop (JObj kvs) k = (case map_of kvs k of Some v \<Rightarrow> v | None \<Rightarrow> JUndefined)"
| "get_prop v k = JUndefined"

text \<open>Truthiness, as \<open>!v\<close> and \<open>v || d\<close> test it.\<close>

fun truthy :: "jsval \<Rightarrow> bool" where
  "truthy JUndefined = False"
| "truthy JNull = False"
| "truthy (JBool b) = b"
| "truthy (JNum n) = (n \<noteq> Fin 0 \<and> n \<noteq> NaN)"
| "truthy (JStr s) = (s \<noteq> [])"
| "truthy (JArr xs) = True"
| "truthy (JObj kvs) = True"

text \<open>\<open>a ?? b\<close>: the right operand when the left is \<open>null\<close> or \<open>undefined\<close>.\<close>

fun nullish :: "jsval \<Rightarrow> jsval \<Rightarrow> jsval" where
  "nullish JUndefined d = d"
| "nullish JNull d = d"
| "nullish v d = v"

text \<open>\<open>typeof v\<close> is \<open>'string'\<close>, \<open>'number'\<close>, \<open>'boolean'\<close>.\<close>

fun isString :: "jsval \<Rightarrow> bool" where
  "isString (JStr s) = True"
| "isString v = False"

fun isNumber :: "jsval \<Rightarrow> bool" where
  "isNumber (JNum n) = True"
| "isNumber v = False"

fun isBoolean :: "jsval \<Rightarrow> bool" where
  "isBoolean (JBool b) = True"
| "isBoolean v = False"

text \<open>
  \<open>String.prototype.toLowerCase\<close> on the ASCII letters; every other character is left
  as it is (no character outside ASCII lowers to a letter of \<open>success\<close>,
  \<open>failed\<close> or \<open>partial\<close>).
\<close>

definition upperLetters :: string where
  "upperLetters = ''ABCDEFGHIJKLMNOPQRSTUVWXYZ''"

definition lowerLetters :: string where
  "lowerLetters = ''abcdefghijklmnopqrstuvwxyz''"

definition toLowerCase_char :: "char \<Rightarrow> char" where
  "toLowerCase_char c =
     (case map_of (zip upperLetters lowerLetters) c of Some l \<Rightarrow> l | None \<Rightarrow> c)"

definition toUpperCase_char :: "char \<Rightarrow> char" where
  "toUpperCase_char c =
     (case map_of (zip lowerLetters upperLetters) c of Some u \<Rightarrow> u | None \<Rightarrow> c)"

definition toLowerCase :: "string \<Rightarrow> string" where
  "toLowerCase s = map toLowerCase_char s"

section \<open>dataService.ts: the helpers\<close>

text \<open>\<open>normalizeScanStatus(status: unknown)\<close>.\<close>

definition normalizeScanStatus :: "jsval \<Rightarrow> string" where
  "normalizeScanStatus status =
     (case status of
        JStr s \<Rightarrow>
          (let normalized = toLowerCase s in
           if normalized = ''success'' \<or> normalized = ''failed'' \<or> normalized = ''partial''
           then normalized
           else ''failed'')
      | _ \<Rightarrow> ''failed'')"

text \<open>\<open>isRecord(value)\<close>: an object that is neither \<open>null\<close> nor an array.\<close>

fun isRecord :: "jsval \<Rightarrow> bool" where
  "isRecord (JObj kvs) = True"
| "isRecord v = False"

text \<open>
  \<open>asNumberRecord(value)\<close>: the entries whose value is a number, or \<open>undefined\<close>
  (here \<open>None\<close>) when the value is no record or has no such entry.
\<close>

fun numericEntries :: "(string \<times> jsval) list \<Rightarrow> (string \<times> jsnum) list" where
  "numericEntries [] = []"
| "numericEntries ((k, JNum n) # kvs) = (k, n) # numericEntries kvs"
| "numericEntries ((k, v) # kvs) = numericEntries kvs"

fun asNumberRecord :: "jsval \<Rightarrow> (string \<times> jsnum) list option" where
  "asNumberRecord (JObj kvs) =
     (let result = numericEntries kvs in if result \<noteq> [] then Some result else None)"
| "asNumberRecord v = None"

text \<open>\<open>record.key ?? 0\<close> on a number record.\<close>

definition entryOr0 :: "(string \<times> jsnum) list \<Rightarrow> string \<Rightarrow> jsnum" where
  "entryOr0 r k = (case map_of r k of Some n \<Rightarrow> n | None \<Rightarrow> Fin 0)"

text \<open>
  \<open>getNumericValue(value: unknown)\<close>. \<open>Number(s)\<close> on a string is the runtime's
  conversion, not code of this repository: it is the parameter \<open>Number\<close>.
\<close>

definition getNumericValue :: "(string \<Rightarrow> jsnum) \<Rightarrow> jsval \<Rightarrow> jsnum" where
  "getNumericValue Number v =
     (case v of
        JNum n \<Rightarrow> n
      | JStr s \<Rightarrow> (let parsed = Number s in if isFinite parsed then parsed else Fin 0)
      | _ \<Rightarrow> Fin 0)"

text \<open>
  \<open>filterResourcesByRegion(resources: ServiceResource[], regionCode?: string)\<close>, with
  \<open>ServiceResource = Record<string, unknown>\<close>: a resource is the list of its entries.
  The optional \<open>regionCode\<close> is \<open>None\<close> when the caller passes none; \<open>!regionCode\<close>
  also holds of the empty string.
\<close>

type_synonym ServiceResource = "(string \<times> jsval) list"

definition resourceRegion :: "ServiceResource \<Rightarrow> jsval" where
  "resourceRegion resource =
     nullish (nullish (get_prop (JObj resource) ''region'') (get_prop (JObj resource) ''Region''))
       (get_prop (JObj resource) ''aws_region'')"

definition regionMatches :: "string \<Rightarrow> ServiceResource \<Rightarrow> bool" where
  "regionMatches regionCode resource =
     (case resourceRegion resource of JStr region \<Rightarrow> region = regionCode | _ \<Rightarrow> False)"

definition filterResourcesByRegion ::
  "ServiceResource list \<Rightarrow> string option \<Rightarrow> ServiceResource list" where
  "filterResourcesByRegion resources regionCode =
     (case regionCode of
        None \<Rightarrow> resources
      | Some code \<Rightarrow>
          if code = [] \<or> length resources = 0 then resources
          else (let filtered = filter (regionMatches code) resources in
                if length filtered > 0 then filtered else resources))"

section \<open>dataService.ts: calculateServiceHealth\<close>

record health =
  healthPercent :: jsnum
  scanStatus :: string

text \<open>
  The arms of \<open>switch (serviceName)\<close>. Each takes the summary, \<open>resourceCount\<close> and
  the \<open>scanStatus\<close> set before the switch (where \<open>healthScore\<close> is 100), and returns
  \<open>healthScore\<close> and \<open>scanStatus\<close> as the arm leaves them.
\<close>

definition case_ec2 :: "jsval \<Rightarrow> jsnum \<Rightarrow> string \<Rightarrow> jsnum \<times> string" where
  "case_ec2 summary resourceCount scanStatus0 =
     (case asNumberRecord (get_prop summary ''state_distribution'') of
        Some stateDistribution \<Rightarrow>
          (let running = entryOr0 stateDistribution ''running'';
               stopped = entryOr0 stateDistribution ''stopped'';
               terminated = entryOr0 stateDistribution ''terminated'';
               healthScore =
                 (if js_gt resourceCount (Fin 0)
                  then Math_round (js_mul (js_div running resourceCount) (Fin 100))
                  else Fin 0);
               scanStatus = (if js_gt stopped (Fin 0) then ''partial'' else scanStatus0);
               healthScore =
                 (if js_gt terminated (Fin 0)
                  then Math_max (Fin 0) (js_sub healthScore (Fin 20))
                  else healthScore)
           in (healthScore, scanStatus))
      | None \<Rightarrow> (Fin 100, scanStatus0))"

definition case_rds :: "jsval \<Rightarrow> jsnum \<Rightarrow> string \<Rightarrow> jsnum \<times> string" where
  "case_rds summary resourceCount scanStatus0 =
     (case asNumberRecord (get_prop summary ''status_distribution'') of
        Some statusDistribution \<Rightarrow>
          (let available = entryOr0 statusDistribution ''available'';
               healthScore =
                 (if js_gt resourceCount (Fin 0)
                  then Math_round (js_mul (js_div available resourceCount) (Fin 100))
                  else Fin 0);
               scanStatus = (if js_lt available resourceCount then ''partial'' else scanStatus0)
           in (healthScore, scanStatus))
      | None \<Rightarrow> (Fin 100, scanStatus0))"

definition case_cloudtrail ::
  "(string \<Rightarrow> jsnum) \<Rightarrow> jsval \<Rightarrow> string \<Rightarrow> jsnum \<times> string" where
  "case_cloudtrail Number summary scanStatus0 =
     (let loggingEnabled = getNumericValue Number (get_prop summary ''logging_enabled'');
          totalTrails = getNumericValue Number (get_prop summary ''total_trails'')
      in if js_eq totalTrails (Fin 0) then (Fin 0, ''failed'')
         else (Math_round (js_mul (js_div loggingEnabled totalTrails) (Fin 100)),
               if js_lt loggingEnabled totalTrails then ''partial'' else scanStatus0))"

definition case_vpc :: "jsval \<Rightarrow> string \<Rightarrow> jsnum \<times> string" where
  "case_vpc summary scanStatus0 =
     (case get_prop summary ''is_default'' of
        JBool isDefault \<Rightarrow>
          (if isDefault then Fin 70 else Fin 100,
           if isDefault then ''partial'' else scanStatus0)
      | _ \<Rightarrow> (Fin 100, scanStatus0))"

definition case_s3 ::
  "(string \<Rightarrow> jsnum) \<Rightarrow> jsval \<Rightarrow> jsnum \<Rightarrow> string \<Rightarrow> jsnum \<times> string" where
  "case_s3 Number summary resourceCount scanStatus0 =
     (let encryptionStatus = get_prop summary ''encryption_status'' in
      if isRecord encryptionStatus then
        (let encrypted = getNumericValue Number (get_prop encryptionStatus ''encrypted'');
             healthScore =
               (if js_gt resourceCount (Fin 0)
                then Math_round (js_mul (js_div encrypted resourceCount) (Fin 100))
                else Fin 0);
             scanStatus = (if js_lt encrypted resourceCount then ''partial'' else scanStatus0)
         in (healthScore, scanStatus))
      else (Fin 100, scanStatus0))"

definition case_default :: "jsnum \<Rightarrow> string \<Rightarrow> string \<Rightarrow> jsnum \<times> string" where
  "case_default resourceCount normalizedStatus scanStatus0 =
     (if normalizedStatus = ''success''
      then (if js_gt resourceCount (Fin 0) then Fin 95 else Fin 100, scanStatus0)
      else (Fin 75, ''partial''))"

definition healthSwitch ::
  "(string \<Rightarrow> jsnum) \<Rightarrow> string \<Rightarrow> jsval \<Rightarrow> jsnum \<Rightarrow> string \<Rightarrow> jsnum \<times> string" where
  "healthSwitch Number serviceName summary resourceCount normalizedStatus =
     (let scanStatus0 = (if normalizedStatus = ''partial'' then ''partial'' else ''success'') in
      if serviceName = ''ec2'' then case_ec2 summary resourceCount scanStatus0
      else if serviceName = ''rds'' then case_rds summary resourceCount scanStatus0
      else if serviceName = ''cloudtrail'' then case_cloudtrail Number summary scanStatus0
      else if serviceName = ''vpc'' then case_vpc summary scanStatus0
      else if serviceName = ''s3'' then case_s3 Number summary resourceCount scanStatus0
      else case_default resourceCount normalizedStatus scanStatus0)"

text \<open>
  \<open>calculateServiceHealth(serviceName, serviceData)\<close>. The payload is any value: the
  function itself tests \<open>!serviceData\<close>, \<open>!serviceData.summary\<close> and the type of
  \<open>summary.resource_count\<close>.
\<close>

definition resourceCountOf :: "jsval \<Rightarrow> jsnum" where
  "resourceCountOf summary =
     (case get_prop summary ''resource_count'' of JNum n \<Rightarrow> n | _ \<Rightarrow> Fin 0)"

definition calculateServiceHealth :: "(string \<Rightarrow> jsnum) \<Rightarrow> string \<Rightarrow> jsval \<Rightarrow> health" where
  "calculateServiceHealth Number serviceName serviceData =
     (if \<not> truthy serviceData \<or> \<not> truthy (get_prop serviceData ''summary'')
      then \<lparr>healthPercent = Fin 0, scanStatus = ''failed''\<rparr>
      else
        (let summary = get_prop serviceData ''summary'';
             resourceCount = resourceCountOf summary;
             normalizedStatus = normalizeScanStatus (get_prop summary ''scan_status'')
         in if normalizedStatus = ''failed'' \<or> js_eq resourceCount (Fin 0)
            then \<lparr>healthPercent = (if js_eq resourceCount (Fin 0) then Fin 100 else Fin 0),
                  scanStatus = (if js_eq resourceCount (Fin 0) then ''success'' else ''failed'')\<rparr>
            else
              (case healthSwitch Number serviceName summary resourceCount normalizedStatus of
                 (healthScore, status) \<Rightarrow>
                   \<lparr>healthPercent = Math_max (Fin 0) (Math_min (Fin 100) healthScore),
                    scanStatus = status\<rparr>)))"

section \<open>dataService.ts: getServiceCategories\<close>

text \<open>
  \<open>formatCategoryName(category)\<close>: the table, and for a name outside it the words
  between underscores, each with its first letter in upper case, joined by spaces.
\<close>

definition categoryNameMap :: "(string \<times> string) list" where
  "categoryNameMap =
     [(''compute'', ''Compute''),
      (''database'', ''Database''),
      (''general'', ''General''),
      (''storage'', ''Storage''),
      (''networking'', ''Networking''),
      (''integration'', ''Integration''),
      (''cost_management'', ''Cost Management''),
      (''security'', ''Security''),
      (''monitoring'', ''Monitoring''),
      (''devops_tools'', ''DevOps Tools''),
      (''analytics'', ''Analytics''),
      (''migration_transfer'', ''Migration Transfer''),
      (''management_governance'', ''Management Governance''),
      (''ai_ml'', ''AI-ML'')]"

fun split_on :: "char \<Rightarrow> string \<Rightarrow> string list" where
  "split_on c [] = [[]]"
| "split_on c (x # xs) =
     (if x = c then [] # split_on c xs
      else (case split_on c xs of w # ws \<Rightarrow> (x # w) # ws | [] \<Rightarrow> [[x]]))"

fun capitalize :: "string \<Rightarrow> string" where
  "capitalize [] = []"
| "capitalize (c # cs) = toUpperCase_char c # cs"

fun join_with :: "string \<Rightarrow> string list \<Rightarrow> string" where
  "join_with sep [] = []"
| "join_with sep [w] = w"
| "join_with sep (w # ws) = w @ sep @ join_with sep ws"

definition formatCategoryName :: "string \<Rightarrow> string" where
  "formatCategoryName category =
     (case map_of categoryNameMap category of
        Some name \<Rightarrow> if name \<noteq> [] then name
                     else join_with '' '' (map capitalize (split_on CHR ''_'' category))
      | None \<Rightarrow> join_with '' '' (map capitalize (split_on CHR ''_'' category)))"

definition categoryOrder :: "string list" where
  "categoryOrder =
     [''compute'',
      ''database'',
      ''general'',
      ''storage'',
      ''networking'',
      ''integration'',
      ''cost_management'',
      ''security'',
      ''monitoring'',
      ''devops_tools'',
      ''analytics'',
      ''migration_transfer'',
      ''management_governance'',
      ''ai_ml'']"

text \<open>
  The service model of \<open>createServiceModelWithData\<close>, in the fields that depend on the
  scan: name, category, resource count, health and scan status (\<open>id\<close>, the display
  names, \<open>icon\<close>, \<open>activeCount\<close>, \<open>status\<close> and \<open>lastUpdated\<close> are left out).
  The HTTP fetch is the parameter \<open>fetched\<close>: for a category and a service, the payload
  after \<open>normalizeServiceData\<close>, or \<open>JNull\<close> when the request fails.
\<close>

record AWSService =
  serviceName :: string
  categoryKey :: string
  resourceCount :: jsnum
  serviceHealthPercent :: jsnum
  serviceScanStatus :: string

definition createServiceModelWithData ::
  "(string \<Rightarrow> jsnum) \<Rightarrow> (string \<Rightarrow> string \<Rightarrow> jsval) \<Rightarrow> string \<Rightarrow> string \<Rightarrow> jsnum
     \<Rightarrow> AWSService" where
  "createServiceModelWithData Number fetched name category count =
     (let h = calculateServiceHealth Number name (fetched category name) in
      \<lparr>serviceName = name,
       categoryKey = category,
       resourceCount = count,
       serviceHealthPercent = healthPercent h,
       serviceScanStatus = scanStatus h\<rparr>)"

record ServiceCategory =
  key :: string
  name :: string
  services :: "AWSService list"
  totalResources :: jsnum

text \<open>
  The two records of the discovery snapshot that the function reads, for the account and
  the region asked: \<open>services\<close> (category to service names) and \<open>resourceCounts\<close>
  (category to service to count). Both are only read by key, so they are maps.
  \<open>countOf\<close> is \<open>categoryResourceCounts[serviceName] || 0\<close>.
\<close>

type_synonym ServiceNames = "string \<rightharpoonup> string list"
type_synonym ResourceCounts = "string \<rightharpoonup> (string \<rightharpoonup> jsnum)"

definition countOf :: "(string \<rightharpoonup> jsnum) \<Rightarrow> string \<Rightarrow> jsnum" where
  "countOf categoryResourceCounts sname =
     (case categoryResourceCounts sname of
        Some n \<Rightarrow> if truthy (JNum n) then n else Fin 0
      | None \<Rightarrow> Fin 0)"

text \<open>
  \<open>services[categoryName] || []\<close> and \<open>resourceCounts[categoryName] || {}\<close>.
\<close>

definition serviceNamesIn :: "ServiceNames \<Rightarrow> string \<Rightarrow> string list" where
  "serviceNamesIn servicesOf categoryName =
     (case servicesOf categoryName of Some ns \<Rightarrow> ns | None \<Rightarrow> [])"

definition countsIn :: "ResourceCounts \<Rightarrow> string \<Rightarrow> (string \<rightharpoonup> jsnum)" where
  "countsIn resourceCounts categoryName =
     (case resourceCounts categoryName of Some m \<Rightarrow> m | None \<Rightarrow> Map.empty)"

text \<open>The body of \<open>categoryOrder.map(async categoryName => ...)\<close>; \<open>None\<close> is \<open>null\<close>.\<close>

definition categoryFor ::
  "(string \<Rightarrow> jsnum) \<Rightarrow> (string \<Rightarrow> string \<Rightarrow> jsval) \<Rightarrow> ServiceNames \<Rightarrow> ResourceCounts
     \<Rightarrow> string \<Rightarrow> ServiceCategory option" where
  "categoryFor Number fetched servicesOf resourceCounts categoryName =
     (let serviceNames = serviceNamesIn servicesOf categoryName in
      if length serviceNames = 0 then None
      else
        (let categoryResourceCounts = countsIn resourceCounts categoryName;
             servicesWithResources =
               filter (\<lambda>n. js_gt (countOf categoryResourceCounts n) (Fin 0)) serviceNames
         in if length servicesWithResources = 0 then None
            else
              Some \<lparr>key = categoryName,
                    name = formatCategoryName categoryName,
                    services =
                      map (\<lambda>n. createServiceModelWithData Number fetched n categoryName
                                 (countOf categoryResourceCounts n))
                        servicesWithResources,
                    totalResources =
                      foldl (\<lambda>sum n. js_add sum (countOf categoryResourceCounts n)) (Fin 0)
                        servicesWithResources\<rparr>))"

definition getServiceCategories ::
  "(string \<Rightarrow> jsnum) \<Rightarrow> (string \<Rightarrow> string \<Rightarrow> jsval) \<Rightarrow> ServiceNames \<Rightarrow> ResourceCounts
     \<Rightarrow> ServiceCategory list" where
  "getServiceCategories Number fetched servicesOf resourceCounts =
     List.map_filter (categoryFor Number fetched servicesOf resourceCounts) categoryOrder"

section \<open>The optimization summary\<close>

text \<open>
  Modelled from the spec: the per-resource optimization result that the workload analyzer
  emits. The analyzer is not among the sources (only the interface
  \<open>LambdaOptimization\<close> and the cards that display it are); the fields are those of the
  spec's data model, with its \<open>float\<close> fields as doubles.
\<close>

datatype memory_status = optimal | over_provisioned | under_provisioned

record OptimizationResult =
  is_idle :: bool
  invocations :: nat
  avg_duration_ms :: jsnum
  error_rate :: jsnum
  memory_status :: memory_status
  high_error_rate :: bool
  migration_candidate :: bool
  potential_savings :: jsnum
  recommendations :: "string list"





section \<open>Inputs of the examples\<close>

text \<open>
  Payloads for the examples: a service payload with the given summary entries and no
  resources listed, a summary with a resource count and a declared scan status, and the
  summary of an instance service with its state distribution.
\<close>

definition payloadOf :: "(string \<times> jsval) list \<Rightarrow> jsval" where
  "payloadOf summaryEntries = JObj [(''summary'', JObj summaryEntries), (''resources'', JArr [])]"

definition basicSummary :: "rat \<Rightarrow> string \<Rightarrow> (string \<times> jsval) list" where
  "basicSummary count declared =
     [(''resource_count'', JNum (Fin count)), (''scan_status'', JStr declared)]"

definition ec2Summary :: "rat \<Rightarrow> string \<Rightarrow> rat \<Rightarrow> rat \<Rightarrow> rat \<Rightarrow> (string \<times> jsval) list" where
  "ec2Summary count declared running stopped terminated =
     [(''resource_count'', JNum (Fin count)),
      (''scan_status'', JStr declared),
      (''state_distribution'',
         JObj [(''running'', JNum (Fin running)),
               (''stopped'', JNum (Fin stopped)),
               (''terminated'', JNum (Fin terminated))])]"

text \<open>
  A discovery snapshot for the examples: four categories, of which \<open>general\<close> has no
  service and \<open>compute\<close> only one without resources.
\<close>

definition exampleServices :: ServiceNames where
  "exampleServices =
     [''networking'' \<mapsto> [''vpc'', ''route53''],
      ''storage'' \<mapsto> [''s3'', ''ebs''],
      ''compute'' \<mapsto> [''ec2''],
      ''general'' \<mapsto> []]"

definition exampleCounts :: ResourceCounts where
  "exampleCounts =
     [''networking'' \<mapsto> [''vpc'' \<mapsto> Fin 2],
      ''storage'' \<mapsto> [''s3'' \<mapsto> Fin 0, ''ebs'' \<mapsto> Fin 4],
      ''compute'' \<mapsto> [''ec2'' \<mapsto> Fin 0]]"

section \<open>Rounding to doubles\<close>

text \<open>
  The binary exponent brackets its argument between two powers of 2; integers below
  \<open>2 ^ 52\<close> in absolute value are doubles; and the rounding of the ratios that the
  examples use, among them 23 of 40: the quotient rounds below 0.575, its product with
  100 is below 57.5, and the rounded percentage is 57.
\<close>

lemma floor_rat_numeral:
  "\<lfloor>(numeral a :: rat) / numeral b\<rfloor> = numeral a div numeral b"
  by (metis floor_divide_of_int_eq of_int_numeral)

lemma ceiling_rat_numeral:
  "\<lceil>(numeral a :: rat) / numeral b\<rceil> = - (- numeral a div numeral b)"
proof -
  have "\<lceil>(numeral a :: rat) / numeral b\<rceil> = - \<lfloor>- ((numeral a :: rat) / numeral b)\<rfloor>"
    by (simp add: ceiling_def)
  also have "- ((numeral a :: rat) / numeral b) = of_int (- numeral a) / of_int (numeral b)"
    by simp
  also have "\<lfloor>(of_int (- numeral a) :: rat) / of_int (numeral b)\<rfloor> = - numeral a div numeral b"
    by (rule floor_divide_of_int_eq)
  finally show ?thesis .
qed

lemmas exponent_eval = binaryExponent_def bitLength.simps floor_rat_numeral ceiling_rat_numeral
lemmas rounding_eval = toDouble_def Let_def pow2_def roundHalfEven_def floor_rat_numeral

lemma bitLength_nonneg: "0 \<le> bitLength n"
proof (induction n rule: bitLength.induct)
  case (1 n)
  then show ?case by (subst bitLength.simps) simp
qed

lemma bitLength_pos: "0 < n \<Longrightarrow> 1 \<le> bitLength n"
  using bitLength_nonneg [of "n div 2"] by (subst bitLength.simps) simp

lemma bitLength_le: "n < 2 ^ k \<Longrightarrow> bitLength n \<le> int k"
proof (induction k arbitrary: n)
  case 0
  then show ?case by (subst bitLength.simps) simp
next
  case (Suc k)
  show ?case
  proof (cases "n \<le> 0")
    case True
    then show ?thesis by (subst bitLength.simps) simp
  next
    case False
    from Suc.prems have "n div 2 < 2 ^ k" by simp
    then have "bitLength (n div 2) \<le> int k" by (rule Suc.IH)
    with False show ?thesis by (subst bitLength.simps) simp
  qed
qed

lemma bitLength_bounds:
  "1 \<le> n \<Longrightarrow> 2 ^ nat (bitLength n - 1) \<le> n \<and> n < 2 ^ nat (bitLength n)"
proof (induction n rule: bitLength.induct)
  case (1 n)
  show ?case
  proof (cases "n = 1")
    case True
    have "bitLength 1 = 1" by (simp add: bitLength.simps)
    with True show ?thesis by simp
  next
    case False
    define m where "m = n div 2"
    define l where "l = bitLength m"
    from False "1.prems" have m1: "1 \<le> m" by (simp add: m_def)
    from "1.prems" have "\<not> n \<le> 0" by simp
    from "1.IH" [OF this] m1
    have ih: "2 ^ nat (l - 1) \<le> m \<and> m < 2 ^ nat l" by (simp add: m_def l_def)
    have l1: "1 \<le> l" using bitLength_pos [of m] m1 by (simp add: l_def)
    have bl: "bitLength n = 1 + l"
      using \<open>\<not> n \<le> 0\<close> by (subst bitLength.simps) (simp add: m_def l_def)
    have p: "(2::int) ^ nat l = 2 * 2 ^ nat (l - 1)"
      using l1 by (metis Suc_nat_eq_nat_zadd1 add.commute diff_add_cancel diff_ge_0_iff_ge power_Suc)
    have n2: "2 * m \<le> n \<and> n \<le> 2 * m + 1" by (simp add: m_def) linarith
    have lo: "2 ^ nat l \<le> n" using ih n2 p by linarith
    have "(2::int) ^ nat (1 + l) = 2 * 2 ^ nat l"
      using l1 by (simp add: nat_add_distrib)
    then have hi: "n < 2 ^ nat (1 + l)" using ih n2 by linarith
    from lo hi bl show ?thesis by simp
  qed
qed


lemma binaryExponent_bounds:
  assumes "0 < a"
  shows "pow2 (binaryExponent a) \<le> a \<and> a < pow2 (binaryExponent a + 1)"
proof (cases "1 \<le> a")
  case True
  define n where "n = \<lfloor>a\<rfloor>"
  define l where "l = bitLength n"
  have n1: "1 \<le> n" using True by (simp add: n_def)
  have b: "2 ^ nat (l - 1) \<le> n \<and> n < 2 ^ nat l"
    using bitLength_bounds [OF n1] by (simp add: l_def)
  have l1: "1 \<le> l" using bitLength_pos [of n] n1 by (simp add: l_def)
  have e: "binaryExponent a = l - 1"
    using True by (simp add: binaryExponent_def n_def l_def)
  have "rat_of_int (2 ^ nat (l - 1)) \<le> rat_of_int n" using b by (simp only: of_int_le_iff)
  also have "rat_of_int n \<le> a" using floor_correct [of a] by (simp add: n_def)
  finally have lo: "2 ^ nat (l - 1) \<le> a" by simp
  have "n + 1 \<le> 2 ^ nat l" using b by simp
  then have "rat_of_int (n + 1) \<le> rat_of_int (2 ^ nat l)" by (simp only: of_int_le_iff)
  moreover have "a < rat_of_int (n + 1)" using floor_correct [of a] by (simp add: n_def)
  ultimately have hi: "a < 2 ^ nat l" by simp
  from lo hi l1 show ?thesis by (simp add: e pow2_def)
next
  case False
  define y where "y = 1 / a"
  define n where "n = \<lceil>y\<rceil> - 1"
  define l where "l = bitLength n"
  have y1: "1 < y" using False assms by (simp add: y_def)
  then have "1 < \<lceil>y\<rceil>" by (simp add: less_ceiling_iff)
  then have n1: "1 \<le> n" by (simp add: n_def)
  have b: "2 ^ nat (l - 1) \<le> n \<and> n < 2 ^ nat l"
    using bitLength_bounds [OF n1] by (simp add: l_def)
  have l1: "1 \<le> l" using bitLength_pos [of n] n1 by (simp add: l_def)
  have e: "binaryExponent a = - l"
    using False by (simp add: binaryExponent_def n_def l_def y_def)
  have "rat_of_int (2 ^ nat (l - 1)) \<le> rat_of_int n" using b by (simp only: of_int_le_iff)
  also have "rat_of_int n < y" using ceiling_correct [of y] by (simp add: n_def)
  finally have below: "2 ^ nat (l - 1) < y" by simp
  have "n + 1 \<le> 2 ^ nat l" using b by simp
  then have "rat_of_int (n + 1) \<le> rat_of_int (2 ^ nat l)" by (simp only: of_int_le_iff)
  moreover have "y \<le> rat_of_int (n + 1)" using ceiling_correct [of y] by (simp add: n_def)
  ultimately have above: "y \<le> 2 ^ nat l" by simp
  have lo: "1 / 2 ^ nat l \<le> a"
    using above assms by (simp add: y_def field_simps)
  have hi: "a < 1 / 2 ^ nat (l - 1)"
    using below assms by (simp add: y_def field_simps)
  have p0: "pow2 (- l) = 1 / 2 ^ nat l" using l1 by (simp add: pow2_def)
  have p1: "pow2 (- l + 1) = 1 / 2 ^ nat (l - 1)"
  proof (cases "l = 1")
    case True
    then show ?thesis by (simp add: pow2_def)
  next
    case False
    with l1 have "\<not> 0 \<le> - l + 1" by simp
    moreover have "nat (- (- l + 1)) = nat (l - 1)" by simp
    ultimately show ?thesis by (simp add: pow2_def)
  qed
  have p1': "pow2 (1 - l) = 1 / 2 ^ nat (l - 1)"
    using p1 by (simp add: add.commute)
  from lo hi show ?thesis by (simp add: e p0 p1')
qed

lemma roundHalfEven_of_int: "roundHalfEven (of_int z) = z"
  by (simp add: roundHalfEven_def Let_def)

lemma toDouble_minus: "toDouble (- x) = js_neg (toDouble x)"
  by (simp add: toDouble_def Let_def)

lemma toDouble_pos_int:
  assumes "0 < m" and m2: "m < 2 ^ 52"
  shows "toDouble (of_int m) = Fin (of_int m)"
proof -
  define e where "e = bitLength m - 1"
  define j where "j = nat (52 - e)"
  have e0: "0 \<le> e" using bitLength_pos [of m] assms(1) by (simp add: e_def)
  have e1: "e \<le> 51" using bitLength_le [OF m2] by (simp add: e_def)
  have be: "binaryExponent (of_int m) = e"
    using assms(1) by (simp add: binaryExponent_def e_def)
  have mx: "max e (- 1022) = e" using e0 by simp
  have q: "pow2 (e - 52) = 1 / 2 ^ j"
    using e1 by (simp add: pow2_def j_def)
  have quot: "rat_of_int m * 2 ^ j = of_int (m * 2 ^ j)" by simp
  have v: "rat_of_int (roundHalfEven (rat_of_int m * 2 ^ j)) / 2 ^ j = of_int m"
    unfolding quot roundHalfEven_of_int by simp
  have "rat_of_int m < 2 ^ 52" using m2 by (metis of_int_less_numeral_power_cancel_iff)
  also have "(2::rat) ^ 52 \<le> 2 ^ 1024" by (rule power_increasing) simp_all
  finally have small: "\<not> pow2 1024 \<le> rat_of_int m" by (simp add: pow2_def)
  show ?thesis
    using assms(1) small by (simp add: toDouble_def Let_def be mx q v)
qed

lemma toDouble_of_int:
  assumes "\<bar>n\<bar> < 2 ^ 52"
  shows "toDouble (of_int n) = Fin (of_int n)"
proof -
  consider "n = 0" | "0 < n" | "n < 0" by linarith
  then show ?thesis
  proof cases
    case 1
    then show ?thesis by (simp add: toDouble_def)
  next
    case 2
    with assms show ?thesis by (simp add: toDouble_pos_int)
  next
    case 3
    with assms have "toDouble (of_int (- n)) = Fin (of_int (- n))"
      by (intro toDouble_pos_int) simp_all
    then have "js_neg (toDouble (of_int n)) = Fin (- of_int n)"
      by (simp add: toDouble_minus)
    then show ?thesis by (cases "toDouble (rat_of_int n)") simp_all
  qed
qed








lemma exponent_5_4: "binaryExponent (5 / 4) = 0"
  by (simp add: exponent_eval)

lemma double_5_4: "toDouble (5 / 4) = Fin (5 / 4)"
  by (simp add: rounding_eval exponent_5_4)

lemma double_125: "toDouble 125 = Fin 125"
  using toDouble_of_int [of 125] by simp


lemma percent_10_8: "Math_round (js_mul (js_div (Fin 10) (Fin 8)) (Fin 100)) = Fin 125"
  by (simp add: double_5_4 double_125 floor_rat_numeral)






section \<open>Scan status normalization\<close>

lemmas lower_defs = toLowerCase_def toLowerCase_char_def upperLetters_def lowerLetters_def

text \<open>
  C10. \<open>normalizeScanStatus\<close> maps every value to one of \<open>success\<close>, \<open>failed\<close>,
  \<open>partial\<close>. A string is lowered before it is matched, so \<open>Success\<close> gives
  \<open>success\<close>; every value that is not a string, and every string that lowers to none of
  the three, \<open>fallback_data\<close> among them, gives \<open>failed\<close>.
\<close>

theorem normalizeScanStatus_total:
  "normalizeScanStatus v \<in> {''success'', ''failed'', ''partial''}
   \<and> normalizeScanStatus (JStr s) =
       (if toLowerCase s \<in> {''success'', ''failed'', ''partial''} then toLowerCase s else ''failed'')
   \<and> normalizeScanStatus (JStr ''Success'') = ''success''
   \<and> (\<not> isString v \<longrightarrow> normalizeScanStatus v = ''failed'')
   \<and> normalizeScanStatus (JStr ''fallback_data'') = ''failed''"
proof -
  have range: "normalizeScanStatus v \<in> {''success'', ''failed'', ''partial''}"
    by (cases v) (auto simp: normalizeScanStatus_def Let_def)
  have str: "normalizeScanStatus (JStr s) =
       (if toLowerCase s \<in> {''success'', ''failed'', ''partial''} then toLowerCase s else ''failed'')"
    by (simp add: normalizeScanStatus_def Let_def)
  have mixed: "normalizeScanStatus (JStr ''Success'') = ''success''"
    by (simp add: normalizeScanStatus_def lower_defs)
  have other: "\<not> isString v \<longrightarrow> normalizeScanStatus v = ''failed''"
    by (cases v) (simp_all add: normalizeScanStatus_def)
  have fallback: "normalizeScanStatus (JStr ''fallback_data'') = ''failed''"
    by (simp add: normalizeScanStatus_def lower_defs)
  from range str mixed other fallback show ?thesis by blast
qed

theorem normalizeScanStatus_total_witness:
  "\<not> isString (JNum (Fin 3)) \<and> normalizeScanStatus (JNum (Fin 3)) = ''failed''
   \<and> normalizeScanStatus (JStr ''PARTIAL'') = ''partial''"
  using normalizeScanStatus_total [of "JNum (Fin 3)" "''PARTIAL''"]
  by (simp add: lower_defs)

section \<open>Numeric coercion\<close>

text \<open>
  C7. \<open>getNumericValue\<close> has a result for every value (it is a total function, and the
  source has no statement that throws): the number itself for a number, the parsed
  number for a string that parses to a finite one, and 0 for a string that does not and
  for \<open>null\<close>, \<open>undefined\<close>, a boolean, an object and an array.
\<close>

theorem getNumericValue_total:
  "getNumericValue Number (JNum n) = n
   \<and> (isFinite (Number s) \<longrightarrow> getNumericValue Number (JStr s) = Number s)
   \<and> (\<not> isFinite (Number t) \<longrightarrow> getNumericValue Number (JStr t) = Fin 0)
   \<and> (\<not> isNumber v \<and> \<not> isString v \<longrightarrow> getNumericValue Number v = Fin 0)
   \<and> getNumericValue Number JNull = Fin 0
   \<and> getNumericValue Number JUndefined = Fin 0
   \<and> getNumericValue Number (JBool b) = Fin 0
   \<and> getNumericValue Number (JObj kvs) = Fin 0
   \<and> getNumericValue Number (JArr xs) = Fin 0"
  by (cases v) (simp_all add: getNumericValue_def Let_def)

theorem getNumericValue_total_witness:
  "isFinite ((\<lambda>s. if s = ''42'' then Fin 42 else NaN) ''42'')
   \<and> getNumericValue (\<lambda>s. if s = ''42'' then Fin 42 else NaN) (JStr ''42'') = Fin 42
   \<and> \<not> isFinite ((\<lambda>s. if s = ''42'' then Fin 42 else NaN) ''abc'')
   \<and> getNumericValue (\<lambda>s. if s = ''42'' then Fin 42 else NaN) (JStr ''abc'') = Fin 0
   \<and> \<not> isNumber (JBool True) \<and> \<not> isString (JBool True)
   \<and> getNumericValue (\<lambda>s. if s = ''42'' then Fin 42 else NaN) (JBool True) = Fin 0"
  using getNumericValue_total
    [of "\<lambda>s. if s = ''42'' then Fin 42 else NaN" _ "''42''" "''abc''" "JBool True"]
  by simp

section \<open>The region filter\<close>

text \<open>
  C6. For every resource list and every region code: when no resource carries the region,
  \<open>filterResourcesByRegion\<close> returns the whole list; and whatever the region argument,
  its result is empty only when the list it was given is empty.
\<close>

theorem filterResourcesByRegion_keeps_data:
  "(filter (regionMatches code) resources = []
      \<longrightarrow> filterResourcesByRegion resources (Some code) = resources)
   \<and> (filterResourcesByRegion resources regionCode = [] \<longrightarrow> resources = [])"
  by (cases regionCode) (auto simp: filterResourcesByRegion_def Let_def)

theorem filterResourcesByRegion_keeps_data_witness:
  "filter (regionMatches ''eu-west-1'')
     [[(''region'', JStr ''us-east-1'')], [(''Region'', JStr ''ap-south-1'')]] = []
   \<and> filterResourcesByRegion
         [[(''region'', JStr ''us-east-1'')], [(''Region'', JStr ''ap-south-1'')]]
         (Some ''eu-west-1'')
       = [[(''region'', JStr ''us-east-1'')], [(''Region'', JStr ''ap-south-1'')]]
   \<and> filterResourcesByRegion [] (Some ''eu-west-1'') = []"
  using filterResourcesByRegion_keeps_data
      [of "''eu-west-1''" "[[(''region'', JStr ''us-east-1'')], [(''Region'', JStr ''ap-south-1'')]]"
          "Some ''eu-west-1''"]
    filterResourcesByRegion_keeps_data [of "''eu-west-1''" "[]" "Some ''eu-west-1''"]
  by (simp add: regionMatches_def resourceRegion_def filterResourcesByRegion_def)

section \<open>Health scoring\<close>

lemma get_prop_JNum_truthy: "get_prop v k = JNum n \<Longrightarrow> truthy v"
  by (cases v) simp_all

text \<open>
  C2. Whenever the summary of the payload reports \<open>resource_count\<close> 0, the score is
  health 100 and status \<open>success\<close>, for every service name and whatever the summary
  declares as its scan status.
\<close>

theorem zero_resources_healthy:
  assumes "get_prop (get_prop serviceData ''summary'') ''resource_count'' = JNum (Fin 0)"
  shows "calculateServiceHealth Number svc serviceData =
           \<lparr>healthPercent = Fin 100, scanStatus = ''success''\<rparr>"
proof -
  have s: "truthy (get_prop serviceData ''summary'')"
    using assms by (rule get_prop_JNum_truthy)
  have d: "truthy serviceData"
    using s by (cases serviceData) simp_all
  show ?thesis
    using assms s d by (simp add: calculateServiceHealth_def resourceCountOf_def js_eq_def Let_def)
qed

theorem zero_resources_healthy_witness:
  "get_prop (get_prop (payloadOf (basicSummary 0 ''failed'')) ''summary'') ''resource_count''
     = JNum (Fin 0)
   \<and> calculateServiceHealth (\<lambda>s. NaN) ''cloudtrail'' (payloadOf (basicSummary 0 ''failed''))
     = \<lparr>healthPercent = Fin 100, scanStatus = ''success''\<rparr>"
proof -
  have h: "get_prop (get_prop (payloadOf (basicSummary 0 ''failed'')) ''summary'')
             ''resource_count'' = JNum (Fin 0)"
    by (simp add: payloadOf_def basicSummary_def)
  show ?thesis using h zero_resources_healthy [OF h] by blast
qed

text \<open>
  C1. The bound on the health fails in the code: \<open>JSON.parse\<close> yields an infinity for
  a numeral such as \<open>1e999\<close>, \<open>getNumericValue\<close> returns a number as it is (only
  a parsed string is tested with \<open>Number.isFinite\<close>), infinity divided by infinity
  is \<open>NaN\<close>, and \<open>Math.max(0, Math.min(100, NaN))\<close> is \<open>NaN\<close>. For
  \<open>cloudtrail\<close> with \<open>logging_enabled\<close> and \<open>total_trails\<close> both infinite
  the health returned is \<open>NaN\<close>, not an integer from 0 to 100.
\<close>

theorem health_percent_nan:
  "calculateServiceHealth (\<lambda>s. NaN) ''cloudtrail''
     (payloadOf (basicSummary 1 ''success'' @
        [(''logging_enabled'', JNum PosInf), (''total_trails'', JNum PosInf)]))
   = \<lparr>healthPercent = NaN, scanStatus = ''success''\<rparr>"
  by (simp add: payloadOf_def basicSummary_def calculateServiceHealth_def resourceCountOf_def
      normalizeScanStatus_def lower_defs healthSwitch_def case_cloudtrail_def getNumericValue_def
      js_gt_def js_eq_def Math_max_def Math_min_def Let_def)

theorem health_percent_nan_witness:
  "healthPercent (calculateServiceHealth (\<lambda>s. NaN) ''cloudtrail''
     (payloadOf (basicSummary 1 ''success'' @
        [(''logging_enabled'', JNum PosInf), (''total_trails'', JNum PosInf)]))) = NaN"
  using health_percent_nan by simp

lemmas health_defs = calculateServiceHealth_def resourceCountOf_def normalizeScanStatus_def
  lower_defs healthSwitch_def js_gt_def js_eq_def js_sub_def Math_max_def Math_min_def Let_def

lemma nonzero_count_truthy:
  assumes "\<not> js_eq (resourceCountOf (get_prop payload ''summary'')) (Fin 0)"
  shows "truthy payload \<and> truthy (get_prop payload ''summary'')"
proof -
  have "\<exists>n. get_prop (get_prop payload ''summary'') ''resource_count'' = JNum n"
    using assms by (auto simp: resourceCountOf_def js_eq_def split: jsval.splits)
  then have s: "truthy (get_prop payload ''summary'')"
    by (auto dest: get_prop_JNum_truthy)
  then have "truthy payload" by (cases payload) simp_all
  with s show ?thesis by simp
qed

lemma health_after_switch:
  assumes "\<not> js_eq (resourceCountOf (get_prop payload ''summary'')) (Fin 0)"
      and "normalizeScanStatus (get_prop (get_prop payload ''summary'') ''scan_status'') \<noteq> ''failed''"
  shows "calculateServiceHealth Number svc payload =
       \<lparr>healthPercent =
          Math_max (Fin 0) (Math_min (Fin 100)
            (fst (healthSwitch Number svc (get_prop payload ''summary'')
                    (resourceCountOf (get_prop payload ''summary''))
                    (normalizeScanStatus (get_prop (get_prop payload ''summary'') ''scan_status''))))),
        scanStatus =
          snd (healthSwitch Number svc (get_prop payload ''summary'')
                 (resourceCountOf (get_prop payload ''summary''))
                 (normalizeScanStatus (get_prop (get_prop payload ''summary'') ''scan_status'')))\<rparr>"
  using assms nonzero_count_truthy [OF assms(1)]
  by (simp add: calculateServiceHealth_def Let_def split: prod.splits)

lemma health_failed:
  assumes "\<not> js_eq (resourceCountOf (get_prop payload ''summary'')) (Fin 0)"
      and "normalizeScanStatus (get_prop (get_prop payload ''summary'') ''scan_status'') = ''failed''"
  shows "calculateServiceHealth Number svc payload = \<lparr>healthPercent = Fin 0, scanStatus = ''failed''\<rparr>"
  using assms nonzero_count_truthy [OF assms(1)]
  by (simp add: calculateServiceHealth_def Let_def)

lemmas eval_defs = payloadOf_def ec2Summary_def basicSummary_def health_defs case_ec2_def
  case_rds_def case_cloudtrail_def case_vpc_def case_s3_def case_default_def entryOr0_def
  getNumericValue_def







text \<open>
  C4, as amended. For every service the score is health 0 and status \<open>failed\<close> when
  the payload or its summary is missing, and when the declared status normalizes to
  \<open>failed\<close> and the resource count is not 0. With a resource count that is not 0 and
  a status that is not \<open>failed\<close>: \<open>cloudtrail\<close> without \<open>total_trails\<close> scores 0
  and \<open>failed\<close>, while \<open>ec2\<close> without a numeric \<open>state_distribution\<close>,
  \<open>rds\<close> without a numeric \<open>status_distribution\<close>, \<open>vpc\<close> without a boolean
  \<open>is_default\<close> and \<open>s3\<close> without an \<open>encryption_status\<close> record keep health
  100 and the status \<open>success\<close>, or \<open>partial\<close> when that is declared.
\<close>

theorem failed_and_missing_facts:
  assumes "summary = get_prop payload ''summary''"
      and "declared = normalizeScanStatus (get_prop summary ''scan_status'')"
      and "kept = (if declared = ''partial'' then ''partial'' else ''success'')"
  shows
    "(\<not> truthy payload \<or> \<not> truthy summary \<longrightarrow>
        calculateServiceHealth Number svc payload = \<lparr>healthPercent = Fin 0, scanStatus = ''failed''\<rparr>)
     \<and> (declared = ''failed'' \<and> \<not> js_eq (resourceCountOf summary) (Fin 0) \<longrightarrow>
        calculateServiceHealth Number svc payload = \<lparr>healthPercent = Fin 0, scanStatus = ''failed''\<rparr>)
     \<and> (declared \<noteq> ''failed'' \<and> \<not> js_eq (resourceCountOf summary) (Fin 0)
          \<and> get_prop summary ''total_trails'' = JUndefined \<longrightarrow>
        calculateServiceHealth Number ''cloudtrail'' payload =
          \<lparr>healthPercent = Fin 0, scanStatus = ''failed''\<rparr>)
     \<and> (declared \<noteq> ''failed'' \<and> \<not> js_eq (resourceCountOf summary) (Fin 0)
          \<and> asNumberRecord (get_prop summary ''state_distribution'') = None \<longrightarrow>
        calculateServiceHealth Number ''ec2'' payload = \<lparr>healthPercent = Fin 100, scanStatus = kept\<rparr>)
     \<and> (declared \<noteq> ''failed'' \<and> \<not> js_eq (resourceCountOf summary) (Fin 0)
          \<and> asNumberRecord (get_prop summary ''status_distribution'') = None \<longrightarrow>
        calculateServiceHealth Number ''rds'' payload = \<lparr>healthPercent = Fin 100, scanStatus = kept\<rparr>)
     \<and> (declared \<noteq> ''failed'' \<and> \<not> js_eq (resourceCountOf summary) (Fin 0)
          \<and> \<not> isBoolean (get_prop summary ''is_default'') \<longrightarrow>
        calculateServiceHealth Number ''vpc'' payload = \<lparr>healthPercent = Fin 100, scanStatus = kept\<rparr>)
     \<and> (declared \<noteq> ''failed'' \<and> \<not> js_eq (resourceCountOf summary) (Fin 0)
          \<and> \<not> isRecord (get_prop summary ''encryption_status'') \<longrightarrow>
        calculateServiceHealth Number ''s3'' payload = \<lparr>healthPercent = Fin 100, scanStatus = kept\<rparr>)"
proof -
  let ?F = "\<lparr>healthPercent = Fin 0, scanStatus = ''failed''\<rparr>"
  let ?K = "\<lparr>healthPercent = Fin 100, scanStatus = kept\<rparr>"
  have missing: "\<not> truthy payload \<or> \<not> truthy summary \<longrightarrow>
      calculateServiceHealth Number svc payload = ?F"
    using assms(1) by (auto simp: calculateServiceHealth_def)
  have failed: "declared = ''failed'' \<and> \<not> js_eq (resourceCountOf summary) (Fin 0) \<longrightarrow>
      calculateServiceHealth Number svc payload = ?F"
    using assms(1,2) health_failed [of payload Number svc] by simp
  have sw: "\<And>name. declared \<noteq> ''failed'' \<Longrightarrow> \<not> js_eq (resourceCountOf summary) (Fin 0) \<Longrightarrow>
      calculateServiceHealth Number name payload =
        \<lparr>healthPercent = Math_max (Fin 0) (Math_min (Fin 100)
            (fst (healthSwitch Number name summary (resourceCountOf summary) declared))),
         scanStatus = snd (healthSwitch Number name summary (resourceCountOf summary) declared)\<rparr>"
    using assms(1,2) health_after_switch [of payload Number] by simp
  have trail: "declared \<noteq> ''failed'' \<and> \<not> js_eq (resourceCountOf summary) (Fin 0)
          \<and> get_prop summary ''total_trails'' = JUndefined \<longrightarrow>
      calculateServiceHealth Number ''cloudtrail'' payload = ?F"
    by (auto simp: sw healthSwitch_def case_cloudtrail_def getNumericValue_def js_eq_def
        Math_max_def Math_min_def Let_def)
  have ec2: "declared \<noteq> ''failed'' \<and> \<not> js_eq (resourceCountOf summary) (Fin 0)
          \<and> asNumberRecord (get_prop summary ''state_distribution'') = None \<longrightarrow>
      calculateServiceHealth Number ''ec2'' payload = ?K"
    using assms(3)
    by (auto simp: sw healthSwitch_def case_ec2_def Math_max_def Math_min_def Let_def)
  have rds: "declared \<noteq> ''failed'' \<and> \<not> js_eq (resourceCountOf summary) (Fin 0)
          \<and> asNumberRecord (get_prop summary ''status_distribution'') = None \<longrightarrow>
      calculateServiceHealth Number ''rds'' payload = ?K"
    using assms(3)
    by (auto simp: sw healthSwitch_def case_rds_def Math_max_def Math_min_def Let_def)
  have vpc: "declared \<noteq> ''failed'' \<and> \<not> js_eq (resourceCountOf summary) (Fin 0)
          \<and> \<not> isBoolean (get_prop summary ''is_default'') \<longrightarrow>
      calculateServiceHealth Number ''vpc'' payload = ?K"
    using assms(3)
    by (cases "get_prop summary ''is_default''")
      (auto simp: sw healthSwitch_def case_vpc_def Math_max_def Math_min_def Let_def)
  have s3: "declared \<noteq> ''failed'' \<and> \<not> js_eq (resourceCountOf summary) (Fin 0)
          \<and> \<not> isRecord (get_prop summary ''encryption_status'') \<longrightarrow>
      calculateServiceHealth Number ''s3'' payload = ?K"
    using assms(3)
    by (auto simp: sw healthSwitch_def case_s3_def Math_max_def Math_min_def Let_def)
  from missing failed trail ec2 rds vpc s3 show ?thesis by blast
qed

theorem failed_and_missing_facts_witness:
  "\<not> truthy JNull
   \<and> calculateServiceHealth (\<lambda>s. NaN) ''ec2'' JNull = \<lparr>healthPercent = Fin 0, scanStatus = ''failed''\<rparr>
   \<and> normalizeScanStatus (JStr ''FAILED'') = ''failed''
   \<and> \<not> js_eq (resourceCountOf (JObj (basicSummary 3 ''FAILED''))) (Fin 0)
   \<and> calculateServiceHealth (\<lambda>s. NaN) ''lambda'' (payloadOf (basicSummary 3 ''FAILED''))
       = \<lparr>healthPercent = Fin 0, scanStatus = ''failed''\<rparr>
   \<and> normalizeScanStatus (JStr ''partial'') \<noteq> ''failed''
   \<and> \<not> js_eq (resourceCountOf (JObj (basicSummary 3 ''partial''))) (Fin 0)
   \<and> get_prop (JObj (basicSummary 3 ''partial'')) ''total_trails'' = JUndefined
   \<and> asNumberRecord (get_prop (JObj (basicSummary 3 ''partial'')) ''state_distribution'') = None
   \<and> asNumberRecord (get_prop (JObj (basicSummary 3 ''partial'')) ''status_distribution'') = None
   \<and> \<not> isBoolean (get_prop (JObj (basicSummary 3 ''partial'')) ''is_default'')
   \<and> \<not> isRecord (get_prop (JObj (basicSummary 3 ''partial'')) ''encryption_status'')
   \<and> calculateServiceHealth (\<lambda>s. NaN) ''cloudtrail'' (payloadOf (basicSummary 3 ''partial''))
       = \<lparr>healthPercent = Fin 0, scanStatus = ''failed''\<rparr>
   \<and> calculateServiceHealth (\<lambda>s. NaN) ''ec2'' (payloadOf (basicSummary 3 ''partial''))
       = \<lparr>healthPercent = Fin 100, scanStatus = ''partial''\<rparr>
   \<and> calculateServiceHealth (\<lambda>s. NaN) ''rds'' (payloadOf (basicSummary 3 ''partial''))
       = \<lparr>healthPercent = Fin 100, scanStatus = ''partial''\<rparr>
   \<and> calculateServiceHealth (\<lambda>s. NaN) ''vpc'' (payloadOf (basicSummary 3 ''partial''))
       = \<lparr>healthPercent = Fin 100, scanStatus = ''partial''\<rparr>
   \<and> calculateServiceHealth (\<lambda>s. NaN) ''s3'' (payloadOf (basicSummary 3 ''partial''))
       = \<lparr>healthPercent = Fin 100, scanStatus = ''partial''\<rparr>"
proof -
  note ev = payloadOf_def basicSummary_def resourceCountOf_def js_eq_def normalizeScanStatus_def
    lower_defs
  have w1: "calculateServiceHealth (\<lambda>s. NaN) ''ec2'' JNull =
      \<lparr>healthPercent = Fin 0, scanStatus = ''failed''\<rparr>"
    using failed_and_missing_facts [OF refl refl refl, of JNull "\<lambda>s. NaN" "''ec2''"] by simp
  have w2: "calculateServiceHealth (\<lambda>s. NaN) ''lambda'' (payloadOf (basicSummary 3 ''FAILED'')) =
      \<lparr>healthPercent = Fin 0, scanStatus = ''failed''\<rparr>"
    using failed_and_missing_facts [OF refl refl refl, of "payloadOf (basicSummary 3 ''FAILED'')"
        "\<lambda>s. NaN" "''lambda''"]
    by (simp add: ev)
  have w3:
    "calculateServiceHealth (\<lambda>s. NaN) ''cloudtrail'' (payloadOf (basicSummary 3 ''partial''))
       = \<lparr>healthPercent = Fin 0, scanStatus = ''failed''\<rparr>
     \<and> calculateServiceHealth (\<lambda>s. NaN) ''ec2'' (payloadOf (basicSummary 3 ''partial''))
       = \<lparr>healthPercent = Fin 100, scanStatus = ''partial''\<rparr>
     \<and> calculateServiceHealth (\<lambda>s. NaN) ''rds'' (payloadOf (basicSummary 3 ''partial''))
       = \<lparr>healthPercent = Fin 100, scanStatus = ''partial''\<rparr>
     \<and> calculateServiceHealth (\<lambda>s. NaN) ''vpc'' (payloadOf (basicSummary 3 ''partial''))
       = \<lparr>healthPercent = Fin 100, scanStatus = ''partial''\<rparr>
     \<and> calculateServiceHealth (\<lambda>s. NaN) ''s3'' (payloadOf (basicSummary 3 ''partial''))
       = \<lparr>healthPercent = Fin 100, scanStatus = ''partial''\<rparr>"
    using failed_and_missing_facts [OF refl refl refl, of "payloadOf (basicSummary 3 ''partial'')"
        "\<lambda>s. NaN" "''ec2''"]
    by (simp add: ev)
  have hyps:
    "normalizeScanStatus (JStr ''FAILED'') = ''failed''"
    "\<not> js_eq (resourceCountOf (JObj (basicSummary 3 ''FAILED''))) (Fin 0)"
    "normalizeScanStatus (JStr ''partial'') \<noteq> ''failed''"
    "\<not> js_eq (resourceCountOf (JObj (basicSummary 3 ''partial''))) (Fin 0)"
    "get_prop (JObj (basicSummary 3 ''partial'')) ''total_trails'' = JUndefined"
    "asNumberRecord (get_prop (JObj (basicSummary 3 ''partial'')) ''state_distribution'') = None"
    "asNumberRecord (get_prop (JObj (basicSummary 3 ''partial'')) ''status_distribution'') = None"
    "\<not> isBoolean (get_prop (JObj (basicSummary 3 ''partial'')) ''is_default'')"
    "\<not> isRecord (get_prop (JObj (basicSummary 3 ''partial'')) ''encryption_status'')"
    by (simp_all add: ev)
  have t: "\<not> truthy JNull" by simp
  from t w1 w2 w3 hyps show ?thesis by blast
qed

text \<open>
  The claim as stated fails twice: a declared \<open>failed\<close> with resource count 0 scores
  100 and \<open>success\<close>, and \<open>ec2\<close> without a state distribution scores 100 and
  \<open>success\<close>.
\<close>

theorem failed_and_missing_facts_counterexample:
  "normalizeScanStatus (get_prop (JObj (basicSummary 0 ''failed'')) ''scan_status'') = ''failed''
   \<and> calculateServiceHealth (\<lambda>s. NaN) ''ec2'' (payloadOf (basicSummary 0 ''failed''))
       = \<lparr>healthPercent = Fin 100, scanStatus = ''success''\<rparr>
   \<and> get_prop (JObj (basicSummary 3 ''success'')) ''state_distribution'' = JUndefined
   \<and> calculateServiceHealth (\<lambda>s. NaN) ''ec2'' (payloadOf (basicSummary 3 ''success''))
       = \<lparr>healthPercent = Fin 100, scanStatus = ''success''\<rparr>"
  by (simp add: eval_defs)

text \<open>
  C5, as amended. For \<open>cloudtrail\<close> with a resource count that is not 0 and
  \<open>total_trails\<close> of value 0, the score is health 0 and status \<open>failed\<close>, whatever
  the declared status and the other fields are.
\<close>

theorem cloudtrail_no_trails:
  assumes "\<not> js_eq (resourceCountOf (get_prop payload ''summary'')) (Fin 0)"
      and "getNumericValue Number (get_prop (get_prop payload ''summary'') ''total_trails'') = Fin 0"
  shows "calculateServiceHealth Number ''cloudtrail'' payload =
           \<lparr>healthPercent = Fin 0, scanStatus = ''failed''\<rparr>"
proof (cases "normalizeScanStatus (get_prop (get_prop payload ''summary'') ''scan_status'') = ''failed''")
  case True
  with assms(1) show ?thesis by (rule health_failed)
next
  case False
  show ?thesis
    using health_after_switch [OF assms(1) False, of Number "''cloudtrail''"] assms(2)
    by (simp add: healthSwitch_def case_cloudtrail_def js_eq_def Math_max_def Math_min_def Let_def)
qed


theorem cloudtrail_no_trails_witness:
  "\<not> js_eq (resourceCountOf (get_prop
        (payloadOf (basicSummary 5 ''success'' @
           [(''logging_enabled'', JNum (Fin 3)), (''total_trails'', JNum (Fin 0))])) ''summary''))
      (Fin 0)
   \<and> getNumericValue (\<lambda>s. NaN) (get_prop (get_prop
        (payloadOf (basicSummary 5 ''success'' @
           [(''logging_enabled'', JNum (Fin 3)), (''total_trails'', JNum (Fin 0))])) ''summary'')
        ''total_trails'') = Fin 0
   \<and> calculateServiceHealth (\<lambda>s. NaN) ''cloudtrail''
        (payloadOf (basicSummary 5 ''success'' @
           [(''logging_enabled'', JNum (Fin 3)), (''total_trails'', JNum (Fin 0))]))
       = \<lparr>healthPercent = Fin 0, scanStatus = ''failed''\<rparr>"
proof -
  let ?payload = "payloadOf (basicSummary 5 ''success'' @
           [(''logging_enabled'', JNum (Fin 3)), (''total_trails'', JNum (Fin 0))])"
  have h1: "\<not> js_eq (resourceCountOf (get_prop ?payload ''summary'')) (Fin 0)"
    by (simp add: payloadOf_def basicSummary_def resourceCountOf_def js_eq_def)
  have h2: "getNumericValue (\<lambda>s. NaN) (get_prop (get_prop ?payload ''summary'') ''total_trails'') = Fin 0"
    by (simp add: payloadOf_def basicSummary_def getNumericValue_def)
  show ?thesis
    using h1 h2 cloudtrail_no_trails [OF h1 h2] by blast
qed

text \<open>
  The claim as stated fails when the resource count is 0 as well: the score is then 100
  and \<open>success\<close>.
\<close>

theorem cloudtrail_no_trails_counterexample:
  "get_prop (JObj (basicSummary 0 ''success'' @ [(''total_trails'', JNum (Fin 0))])) ''total_trails''
     = JNum (Fin 0)
   \<and> calculateServiceHealth (\<lambda>s. NaN) ''cloudtrail''
        (payloadOf (basicSummary 0 ''success'' @ [(''total_trails'', JNum (Fin 0))]))
       = \<lparr>healthPercent = Fin 100, scanStatus = ''success''\<rparr>"
  by (simp add: eval_defs)

section \<open>The category rollup\<close>

lemma categoryFor_Some:
  assumes "categoryFor Number fetched servicesOf resourceCounts c = Some cat"
  shows "key cat = c
     \<and> map serviceName (services cat) =
         filter (\<lambda>n. js_gt (countOf (countsIn resourceCounts c) n) (Fin 0))
           (serviceNamesIn servicesOf c)
     \<and> services cat \<noteq> []
     \<and> (\<forall>svc \<in> set (services cat).
           resourceCount svc = countOf (countsIn resourceCounts c) (serviceName svc)
           \<and> js_gt (resourceCount svc) (Fin 0))"
  using assms
  by (auto simp: categoryFor_def Let_def createServiceModelWithData_def comp_def
      split: if_splits)

lemma categoryFor_None_iff:
  "categoryFor Number fetched servicesOf resourceCounts c = None \<longleftrightarrow>
     \<not> (\<exists>n \<in> set (serviceNamesIn servicesOf c).
           js_gt (countOf (countsIn resourceCounts c) n) (Fin 0))"
  by (auto simp: categoryFor_def Let_def filter_empty_conv)

lemma map_key_map_filter:
  assumes "\<And>c cat. f c = Some cat \<Longrightarrow> key cat = c"
  shows "map key (List.map_filter f cs) = filter (\<lambda>c. f c \<noteq> None) cs"
  using assms by (induction cs) (auto simp: List.map_filter_simps split: option.splits)

lemma set_map_filter: "cat \<in> set (List.map_filter f cs) \<Longrightarrow> \<exists>c \<in> set cs. f c = Some cat"
  by (auto simp: List.map_filter_def)

text \<open>
  C8. The categories that \<open>getServiceCategories\<close> emits are those of the fixed list
  \<open>categoryOrder\<close>, in its order, that have a service with a resource count above 0:
  a category without services, or whose services all have count 0, is left out. In each
  emitted category the services are those of the category with a count above 0, in their
  order: a service with count 0 is left out.
\<close>

theorem getServiceCategories_order:
  "categoryOrder =
     [''compute'', ''database'', ''general'', ''storage'', ''networking'', ''integration'',
      ''cost_management'', ''security'', ''monitoring'', ''devops_tools'', ''analytics'',
      ''migration_transfer'', ''management_governance'', ''ai_ml'']
   \<and> map key (getServiceCategories Number fetched servicesOf resourceCounts) =
     filter (\<lambda>c. \<exists>n \<in> set (serviceNamesIn servicesOf c).
                   js_gt (countOf (countsIn resourceCounts c) n) (Fin 0))
       categoryOrder
   \<and> subseq (map key (getServiceCategories Number fetched servicesOf resourceCounts)) categoryOrder
   \<and> (\<forall>cat \<in> set (getServiceCategories Number fetched servicesOf resourceCounts).
         map serviceName (services cat) =
           filter (\<lambda>n. js_gt (countOf (countsIn resourceCounts (key cat)) n) (Fin 0))
             (serviceNamesIn servicesOf (key cat))
         \<and> services cat \<noteq> []
         \<and> (\<forall>svc \<in> set (services cat).
               resourceCount svc \<noteq> Fin 0 \<and> js_gt (resourceCount svc) (Fin 0)))"
proof -
  let ?f = "categoryFor Number fetched servicesOf resourceCounts"
  let ?R = "getServiceCategories Number fetched servicesOf resourceCounts"
  have keys: "map key ?R = filter (\<lambda>c. ?f c \<noteq> None) categoryOrder"
    unfolding getServiceCategories_def
    by (rule map_key_map_filter) (simp add: categoryFor_Some)
  have k1: "map key ?R =
     filter (\<lambda>c. \<exists>n \<in> set (serviceNamesIn servicesOf c).
                   js_gt (countOf (countsIn resourceCounts c) n) (Fin 0))
       categoryOrder"
    unfolding keys by (simp add: categoryFor_None_iff)
  have k2: "subseq (map key ?R) categoryOrder"
    unfolding keys by simp
  have k3: "\<forall>cat \<in> set ?R.
         map serviceName (services cat) =
           filter (\<lambda>n. js_gt (countOf (countsIn resourceCounts (key cat)) n) (Fin 0))
             (serviceNamesIn servicesOf (key cat))
         \<and> services cat \<noteq> []
         \<and> (\<forall>svc \<in> set (services cat).
               resourceCount svc \<noteq> Fin 0 \<and> js_gt (resourceCount svc) (Fin 0))"
  proof
    fix cat assume "cat \<in> set ?R"
    then obtain c where c: "?f c = Some cat"
      unfolding getServiceCategories_def by (auto dest: set_map_filter)
    from categoryFor_Some [OF c]
    show "map serviceName (services cat) =
           filter (\<lambda>n. js_gt (countOf (countsIn resourceCounts (key cat)) n) (Fin 0))
             (serviceNamesIn servicesOf (key cat))
         \<and> services cat \<noteq> []
         \<and> (\<forall>svc \<in> set (services cat).
               resourceCount svc \<noteq> Fin 0 \<and> js_gt (resourceCount svc) (Fin 0))"
      by (auto simp: js_gt_def)
  qed
  from categoryOrder_def k1 k2 k3 show ?thesis by blast
qed


theorem getServiceCategories_order_witness:
  "map key (getServiceCategories (\<lambda>s. NaN) (\<lambda>c n. JNull) exampleServices exampleCounts)
     = [''storage'', ''networking'']
   \<and> map (\<lambda>cat. map serviceName (services cat))
        (getServiceCategories (\<lambda>s. NaN) (\<lambda>c n. JNull) exampleServices exampleCounts)
     = [[''ebs''], [''vpc'']]"
  using getServiceCategories_order
      [of "\<lambda>s. NaN" "\<lambda>c n. JNull" exampleServices exampleCounts,
        THEN conjunct2, THEN conjunct2, THEN conjunct2]
  by (simp add: getServiceCategories_def categoryOrder_def List.map_filter_simps categoryFor_def
      Let_def serviceNamesIn_def countsIn_def countOf_def js_gt_def exampleServices_def
      exampleCounts_def createServiceModelWithData_def)

section \<open>The savings total\<close>



end
